theory Spec2Isabelle
  imports Complex_Main
begin

section \<open>Calendar arithmetic of the date library\<close>

text \<open>
  The script handles dates through \<^verbatim>\<open>datetime.strptime\<close>, through the difference of two
  \<^verbatim>\<open>datetime\<close> values in days, through \<^verbatim>\<open>pd.date_range\<close> and through
  \<^verbatim>\<open>timetuple().tm_yday\<close> and \<^verbatim>\<open>strftime('%y')\<close> of each index entry.
  A point in time at midnight is modelled by its proleptic Gregorian ordinal (an \<open>int\<close>, day 1 is
  0001-01-01), and the conversion between ordinals and (year, month, day) follows the
  reference implementation of Python's \<^verbatim>\<open>datetime\<close> module
  (\<^verbatim>\<open>_is_leap\<close>, \<^verbatim>\<open>_days_before_year\<close>, \<^verbatim>\<open>_days_in_month\<close>,
  \<^verbatim>\<open>_days_before_month\<close>, \<^verbatim>\<open>_ymd2ord\<close>, \<^verbatim>\<open>_ord2ymd\<close>).
  Python's \<^verbatim>\<open>//\<close> and \<^verbatim>\<open>%\<close> round towards minus infinity, as \<open>div\<close> and \<open>mod\<close> on
  \<open>int\<close> do.
\<close>

definition is_leap :: "int \<Rightarrow> bool" where
  "is_leap year \<longleftrightarrow> year mod 4 = 0 \<and> (year mod 100 \<noteq> 0 \<or> year mod 400 = 0)"

definition days_before_year :: "int \<Rightarrow> int" where
  "days_before_year year = (let y = year - 1 in y * 365 + y div 4 - y div 100 + y div 400)"

definition DAYS_IN_MONTH :: "int list" where
  "DAYS_IN_MONTH = [-1, 31, 28, 31, 30, 31, 30, 31, 31, 30, 31, 30, 31]"

definition DAYS_BEFORE_MONTH :: "int list" where
  "DAYS_BEFORE_MONTH = [-1, 0, 31, 59, 90, 120, 151, 181, 212, 243, 273, 304, 334]"

definition days_in_month :: "int \<Rightarrow> int \<Rightarrow> int" where
  "days_in_month year month =
     (if month = 2 \<and> is_leap year then 29 else DAYS_IN_MONTH ! nat month)"

definition days_before_month :: "int \<Rightarrow> int \<Rightarrow> int" where
  "days_before_month year month =
     DAYS_BEFORE_MONTH ! nat month + (if month > 2 \<and> is_leap year then 1 else 0)"

definition ymd2ord :: "int \<Rightarrow> int \<Rightarrow> int \<Rightarrow> int" where
  "ymd2ord year month day = days_before_year year + days_before_month year month + day"

text \<open>The number of days in 400, 100 and 4 years are 146097, 36524 and 1461.\<close>

definition ord2ymd :: "int \<Rightarrow> int \<times> int \<times> int" where
  "ord2ymd ordinal =
     (let n = ordinal - 1;
          n400 = n div 146097; n = n mod 146097;
          year = n400 * 400 + 1;
          n100 = n div 36524; n = n mod 36524;
          n4 = n div 1461; n = n mod 1461;
          n1 = n div 365; n = n mod 365;
          year = year + n100 * 100 + n4 * 4 + n1
      in if n1 = 4 \<or> n100 = 4 then (year - 1, 12, 31)
         else
           let leapyear = (n1 = 3 \<and> (n4 \<noteq> 24 \<or> n100 = 3));
               month = (n + 50) div 32;
               preceding = DAYS_BEFORE_MONTH ! nat month
                           + (if month > 2 \<and> leapyear then 1 else 0)
           in if preceding > n
              then let month = month - 1;
                       preceding = preceding - (DAYS_IN_MONTH ! nat month
                                     + (if month = 2 \<and> leapyear then 1 else 0))
                   in (year, month, n - preceding + 1)
              else (year, month, n - preceding + 1))"

text \<open>A date is valid when the \<^verbatim>\<open>date\<close> constructor accepts it (years 1 to 9999).\<close>

definition valid_date :: "int \<Rightarrow> int \<Rightarrow> int \<Rightarrow> bool" where
  "valid_date year month day \<longleftrightarrow>
     1 \<le> year \<and> year \<le> 9999 \<and> 1 \<le> month \<and> month \<le> 12
     \<and> 1 \<le> day \<and> day \<le> days_in_month year month"

text \<open>The fields the writer reads off an index entry: the year and \<^verbatim>\<open>tm_yday\<close>.\<close>

definition year_of :: "int \<Rightarrow> int" where
  "year_of ordinal = (case ord2ymd ordinal of (y, m, d) \<Rightarrow> y)"

definition tm_yday :: "int \<Rightarrow> int" where
  "tm_yday ordinal = (case ord2ymd ordinal of (y, m, d) \<Rightarrow> days_before_month y m + d)"

section \<open>Text formatting\<close>

text \<open>
  \<^verbatim>\<open>str\<close> of a non-negative integer, zero padding as in the format \<^verbatim>\<open>03d\<close> and in
  \<^verbatim>\<open>%y\<close>, and right justification in a minimum width.
\<close>

definition digit_char :: "nat \<Rightarrow> char" where
  "digit_char d = ''0123456789'' ! d"

fun str_nat :: "nat \<Rightarrow> string" where
  "str_nat n = (if n < 10 then [digit_char n] else str_nat (n div 10) @ [digit_char (n mod 10)])"

declare str_nat.simps [simp del]

definition zfill :: "nat \<Rightarrow> string \<Rightarrow> string" where
  "zfill width s = replicate (width - length s) (CHR ''0'') @ s"

definition rjust :: "nat \<Rightarrow> string \<Rightarrow> string" where
  "rjust width s = replicate (width - length s) (CHR '' '') @ s"

text \<open>\<^verbatim>\<open>date.strftime('%y')\<close>: the year without century, two digits.\<close>

definition strftime_y :: "int \<Rightarrow> string" where
  "strftime_y ordinal = zfill 2 (str_nat (nat (year_of ordinal mod 100)))"

text \<open>\<^verbatim>\<open>f"{short_year}{julian_day:03d}"\<close> of \<^verbatim>\<open>save_wth_file\<close>.\<close>

definition dssat_date :: "int \<Rightarrow> string" where
  "dssat_date date =
     (let julian_day = tm_yday date;
          short_year = strftime_y date
      in short_year @ zfill 3 (str_nat (nat julian_day)))"

section \<open>Exceptions\<close>

text \<open>
  Every exception the script can raise is a value. The text of a \<open>ValueError\<close> raised by the
  script itself is the script's; the texts of library errors are abbreviated.
\<close>

datatype py_error =
    ValueError string
  | KeyError string
  | UnboundLocalError string
  | FileExistsError string
  | FileNotFoundError string
  | IsADirectoryError string

section \<open>\<^verbatim>\<open>datetime.strptime(s, '%Y%m%d')\<close>\<close>

text \<open>
  \<^verbatim>\<open>strptime\<close> compiles the format into the regular expression
  \<^verbatim>\<open>(?P<Y>\d\d\d\d)(?P<m>1[0-2]|0[1-9]|[1-9])(?P<d>3[0-1]|[1-2]\d|0[1-9]|[1-9]| [1-9])\<close>,
  matches it at the start of the text (the first alternative that lets the whole expression
  match wins), rejects text left over after the match, and then builds the date, which fails
  for year 0 and for a day the month does not have. Each group is modelled by the list of its
  matches in the order the alternatives are tried, with the text that follows the match.
  Digits are the ASCII digits.
\<close>

definition digit_val :: "char \<Rightarrow> int" where
  "digit_val c = int (length (takeWhile (\<lambda>x. x \<noteq> c) ''0123456789''))"

definition is_digit :: "char \<Rightarrow> bool" where
  "is_digit c \<longleftrightarrow> c \<in> set ''0123456789''"

definition regex_Y :: "string \<Rightarrow> (int \<times> string) list" where
  "regex_Y s =
     (case s of
        a # b # c # d # t \<Rightarrow>
          if is_digit a \<and> is_digit b \<and> is_digit c \<and> is_digit d
          then [(1000 * digit_val a + 100 * digit_val b + 10 * digit_val c + digit_val d, t)]
          else []
      | _ \<Rightarrow> [])"

definition regex_m :: "string \<Rightarrow> (int \<times> string) list" where
  "regex_m s =
     (case s of a # b # t \<Rightarrow>
        if a = CHR ''1'' \<and> b \<in> set ''012'' then [(10 + digit_val b, t)] else [] | _ \<Rightarrow> [])
     @ (case s of a # b # t \<Rightarrow>
        if a = CHR ''0'' \<and> b \<in> set ''123456789'' then [(digit_val b, t)] else [] | _ \<Rightarrow> [])
     @ (case s of a # t \<Rightarrow>
        if a \<in> set ''123456789'' then [(digit_val a, t)] else [] | _ \<Rightarrow> [])"

definition regex_d :: "string \<Rightarrow> (int \<times> string) list" where
  "regex_d s =
     (case s of a # b # t \<Rightarrow>
        if a = CHR ''3'' \<and> b \<in> set ''01'' then [(30 + digit_val b, t)] else [] | _ \<Rightarrow> [])
     @ (case s of a # b # t \<Rightarrow>
        if a \<in> set ''12'' \<and> is_digit b then [(10 * digit_val a + digit_val b, t)] else []
        | _ \<Rightarrow> [])
     @ (case s of a # b # t \<Rightarrow>
        if a = CHR ''0'' \<and> b \<in> set ''123456789'' then [(digit_val b, t)] else [] | _ \<Rightarrow> [])
     @ (case s of a # t \<Rightarrow>
        if a \<in> set ''123456789'' then [(digit_val a, t)] else [] | _ \<Rightarrow> [])
     @ (case s of a # b # t \<Rightarrow>
        if a = CHR '' '' \<and> b \<in> set ''123456789'' then [(digit_val b, t)] else [] | _ \<Rightarrow> [])"

definition strptime_Ymd :: "string \<Rightarrow> py_error + int" where
  "strptime_Ymd data_string =
     (case concat (map (\<lambda>(y, s1). concat (map (\<lambda>(m, s2). map (\<lambda>(d, rest). (y, m, d, rest))
                  (regex_d s2)) (regex_m s1))) (regex_Y data_string)) of
        [] \<Rightarrow> Inl (ValueError ''time data does not match format'')
      | (y, m, d, rest) # _ \<Rightarrow>
          if rest \<noteq> [] then Inl (ValueError ''unconverted data remains'')
          else if valid_date y m d then Inr (ymd2ord y m d)
          else Inl (ValueError ''date out of range''))"

section \<open>Numbers and their fixed-point rendering\<close>

text \<open>
  A value of the table is a number or missing (\<^verbatim>\<open>NaN\<close>, here \<open>None\<close>). Numbers are
  rationals: a double is one, and the rounding of floating-point arithmetic is not modelled.
  \<^verbatim>\<open>format(x, 'W.Pf')\<close> rounds the exact value to \<open>P\<close> decimals, ties to even, keeps the sign of
  a negative number, and pads with spaces on the left up to \<open>W\<close> characters;
  \<^verbatim>\<open>NaN\<close> is rendered as \<^verbatim>\<open>nan\<close>.
\<close>

type_synonym cell = "rat option"

definition round_half_even :: "rat \<Rightarrow> int" where
  "round_half_even x =
     (let f = \<lfloor>x\<rfloor>; r = x - of_int f
      in if r < 1 / 2 then f else if 1 / 2 < r then f + 1 else if even f then f else f + 1)"

definition format_f :: "nat \<Rightarrow> nat \<Rightarrow> cell \<Rightarrow> string" where
  "format_f width prec v =
     rjust width
       (case v of
          None \<Rightarrow> ''nan''
        | Some x \<Rightarrow>
            (let scaled = nat (round_half_even (\<bar>x\<bar> * 10 ^ prec));
                 whole = str_nat (scaled div 10 ^ prec);
                 frac = (if prec = 0 then [] else CHR ''.'' # zfill prec (str_nat (scaled mod 10 ^ prec)))
             in (if x < 0 then ''-'' else []) @ whole @ frac))"

definition newline :: string where
  "newline = [CHR 0x0A]"

fun str_join :: "string \<Rightarrow> string list \<Rightarrow> string" where
  "str_join sep [] = []"
| "str_join sep [x] = x"
| "str_join sep (x # y # ys) = x @ sep @ str_join sep (y # ys)"

section \<open>Tables\<close>

text \<open>
  A \<^verbatim>\<open>DataFrame\<close> is its column names and its rows in index order; a row is the index
  label and one value per column. \<^verbatim>\<open>row.get(name, default)\<close> gives the value under a column
  name, and the default only when the row has no such column.
\<close>

record 'i dataframe =
  columns :: "string list"
  rows :: "('i \<times> cell list) list"

definition index :: "'i dataframe \<Rightarrow> 'i list" where
  "index df = map fst (rows df)"

definition row_get :: "string list \<Rightarrow> cell list \<Rightarrow> string \<Rightarrow> cell \<Rightarrow> cell" where
  "row_get cols cells name dflt = (case map_of (zip cols cells) name of Some v \<Rightarrow> v | None \<Rightarrow> dflt)"

text \<open>\<^verbatim>\<open>df[name]\<close>: the column as a list, or \<open>KeyError\<close>.\<close>

definition getitem :: "'i dataframe \<Rightarrow> string \<Rightarrow> py_error + cell list" where
  "getitem df name =
     (if name \<in> set (columns df)
      then Inr (map (\<lambda>(i, cells). row_get (columns df) cells name None) (rows df))
      else Inl (KeyError name))"

text \<open>\<^verbatim>\<open>Series.mean()\<close>, \<^verbatim>\<open>max()\<close> and \<^verbatim>\<open>min()\<close> skip missing values; of no value at
  all they are \<^verbatim>\<open>NaN\<close>.\<close>

definition dropna :: "cell list \<Rightarrow> rat list" where
  "dropna xs = List.map_filter (\<lambda>v. v) xs"

definition series_mean :: "cell list \<Rightarrow> cell" where
  "series_mean xs =
     (let vs = dropna xs in if vs = [] then None else Some (sum_list vs / of_nat (length vs)))"

definition series_max :: "cell list \<Rightarrow> cell" where
  "series_max xs = (case dropna xs of [] \<Rightarrow> None | v # vs \<Rightarrow> Some (fold max vs v))"

definition series_min :: "cell list \<Rightarrow> cell" where
  "series_min xs = (case dropna xs of [] \<Rightarrow> None | v # vs \<Rightarrow> Some (fold min vs v))"

text \<open>\<^verbatim>\<open>df.rename(columns=mapping)\<close>.\<close>

definition rename :: "(string \<times> string) list \<Rightarrow> 'i dataframe \<Rightarrow> 'i dataframe" where
  "rename mapping df =
     df\<lparr>columns := map (\<lambda>c. case map_of mapping c of Some c' \<Rightarrow> c' | None \<Rightarrow> c) (columns df)\<rparr>"

text \<open>
  \<^verbatim>\<open>pd.DataFrame(d)\<close> of a dictionary of dictionaries: one column per outer key, the index is
  the union of the inner keys, a value missing where an inner dictionary lacks the key.
  A dictionary is an association list read with \<open>map_of\<close>.
\<close>

definition pd_DataFrame :: "(string \<times> (string \<times> cell) list) list \<Rightarrow> string dataframe" where
  "pd_DataFrame d =
     \<lparr>columns = map fst d,
      rows = map (\<lambda>k. (k, map (\<lambda>(name, col). case map_of col k of Some v \<Rightarrow> v | None \<Rightarrow> None) d))
               (remdups (concat (map (\<lambda>(name, col). map fst col) d)))\<rparr>"

text \<open>
  \<^verbatim>\<open>pd.to_datetime\<close> and the parsing of the two bounds by \<^verbatim>\<open>pd.date_range\<close> belong to the
  table library; its parser is a parameter \<open>to_datetime\<close> of the model (\<open>None\<close> where it
  raises), so that nothing is assumed about the labels the service sends.
\<close>

definition set_index_to_datetime ::
  "(string \<Rightarrow> int option) \<Rightarrow> string dataframe \<Rightarrow> py_error + int dataframe" where
  "set_index_to_datetime to_datetime df =
     (if \<exists>k \<in> set (index df). to_datetime k = None
      then Inl (ValueError ''unknown datetime string format'')
      else Inr \<lparr>columns = columns df,
                rows = map (\<lambda>(k, cells). (the (to_datetime k), cells)) (rows df)\<rparr>)"

definition date_range ::
  "(string \<Rightarrow> int option) \<Rightarrow> string \<Rightarrow> string \<Rightarrow> py_error + int list" where
  "date_range to_datetime start end =
     (case (to_datetime start, to_datetime end) of
        (Some s, Some e) \<Rightarrow> Inr [s..e]
      | _ \<Rightarrow> Inl (ValueError ''unknown datetime string format''))"

text \<open>\<^verbatim>\<open>df.reindex(labels)\<close>: refused when the index has a label twice.\<close>

definition reindex :: "int dataframe \<Rightarrow> int list \<Rightarrow> py_error + int dataframe" where
  "reindex df labels =
     (if \<not> distinct (index df)
      then Inl (ValueError ''cannot reindex on an axis with duplicate labels'')
      else Inr \<lparr>columns = columns df,
                rows = map (\<lambda>d. (d, case map_of (rows df) d of
                                        Some cells \<Rightarrow> cells
                                      | None \<Rightarrow> replicate (length (columns df)) None))
                         labels\<rparr>)"

text \<open>\<^verbatim>\<open>pd.concat([a, b])\<close>: the rows of \<open>a\<close>, then those of \<open>b\<close>, over the union of the
  columns.\<close>

definition pd_concat :: "'i dataframe \<Rightarrow> 'i dataframe \<Rightarrow> 'i dataframe" where
  "pd_concat a b =
     (let cols = columns a @ filter (\<lambda>c. c \<notin> set (columns a)) (columns b);
          align = (\<lambda>df (i, cells). (i, map (\<lambda>c. row_get (columns df) cells c None) cols))
      in \<lparr>columns = cols, rows = map (align a) (rows a) @ map (align b) (rows b)\<rparr>)"

section \<open>The world outside: network, console and files\<close>

record request =
  url :: string
  q_parameters :: string
  q_community :: string
  q_longitude :: rat
  q_latitude :: rat
  q_start :: string
  q_end :: string
  q_format :: string
  timeout :: nat

text \<open>
  The answer to a request: \<^verbatim>\<open>requests.get\<close> raises a \<^verbatim>\<open>RequestException\<close>, or returns a
  response with a status and a body. The body is the object found under
  \<^verbatim>\<open>['properties']['parameter']\<close>: parameter names mapped to objects of date labels and
  values (a number or \<^verbatim>\<open>null\<close>). A body of another shape is outside the model; a body
  that lacks one of the seven names is in it.
\<close>

datatype http_reply =
    Raises string
  | Reply nat "(string \<times> (string \<times> cell) list) list"

datatype request_exception = TransportFailure string | HTTPError nat

text \<open>What the script prints: the diagnostic of a failed request, the confirmation of the
  written file, the title of the summary and the summary table of a frame.\<close>

datatype message =
    RequestError request_exception
  | WthCreated string
  | SummaryTitle
  | Describe "int dataframe"

record world =
  requests :: "request list"
  printed :: "message list"
  dirs :: "string set"
  files :: "string \<rightharpoonup> string"

section \<open>\<^verbatim>\<open>get_daily_nasa_power_data\<close>\<close>

definition parameters :: "string list" where
  "parameters = [''T2M'', ''T2M_MAX'', ''T2M_MIN'', ''PRECTOTCORR'', ''ALLSKY_SFC_SW_DWN'',
                 ''RH2M'', ''WS2M'']"

text \<open>The dictionary comprehension over \<open>parameters\<close>: \<open>KeyError\<close> at the first name the body
  lacks.\<close>

fun select_parameters ::
  "string list \<Rightarrow> (string \<times> (string \<times> cell) list) list
     \<Rightarrow> py_error + (string \<times> (string \<times> cell) list) list" where
  "select_parameters [] data = Inr []"
| "select_parameters (p # ps) data =
     (case map_of data p of
        None \<Rightarrow> Inl (KeyError p)
      | Some col \<Rightarrow>
          (case select_parameters ps data of Inl e \<Rightarrow> Inl e | Inr rest \<Rightarrow> Inr ((p, col) # rest)))"

text \<open>The statements between \<^verbatim>\<open>response.json()\<close> and \<^verbatim>\<open>return df\<close>.\<close>

definition process_daily_data ::
  "(string \<Rightarrow> int option) \<Rightarrow> (string \<times> (string \<times> cell) list) list \<Rightarrow> string \<Rightarrow> string
     \<Rightarrow> py_error + int dataframe" where
  "process_daily_data to_datetime data start_date end_date =
     (case select_parameters parameters data of
        Inl e \<Rightarrow> Inl e
      | Inr daily_data \<Rightarrow>
          (case set_index_to_datetime to_datetime (pd_DataFrame daily_data) of
             Inl e \<Rightarrow> Inl e
           | Inr df \<Rightarrow>
               (case date_range to_datetime start_date end_date of
                  Inl e \<Rightarrow> Inl e
                | Inr full_range \<Rightarrow> reindex df full_range)))"

text \<open>The request of \<^verbatim>\<open>requests.get(base_url, params=params, timeout=30)\<close>.\<close>

definition nasa_request :: "rat \<Rightarrow> rat \<Rightarrow> string \<Rightarrow> string \<Rightarrow> request" where
  "nasa_request latitude longitude start_date end_date =
     \<lparr>url = ''https://power.larc.nasa.gov/api/temporal/daily/point'',
      q_parameters = str_join '','' parameters,
      q_community = ''AG'',
      q_longitude = longitude,
      q_latitude = latitude,
      q_start = start_date,
      q_end = end_date,
      q_format = ''JSON'',
      timeout = 30\<rparr>"

text \<open>\<^verbatim>\<open>response.raise_for_status()\<close> raises for the statuses 400 to 599.\<close>

definition failure_status :: "nat \<Rightarrow> bool" where
  "failure_status status \<longleftrightarrow> 400 \<le> status \<and> status < 600"

definition get_daily_nasa_power_data ::
  "(request \<Rightarrow> http_reply) \<Rightarrow> (string \<Rightarrow> int option) \<Rightarrow> rat \<Rightarrow> rat \<Rightarrow> string \<Rightarrow> string \<Rightarrow> world
     \<Rightarrow> (py_error + int dataframe option) \<times> world" where
  "get_daily_nasa_power_data net to_datetime latitude longitude start_date end_date w =
     (case strptime_Ymd start_date of
        Inl e \<Rightarrow> (Inl e, w)
      | Inr start_dt \<Rightarrow>
     (case strptime_Ymd end_date of
        Inl e \<Rightarrow> (Inl e, w)
      | Inr end_dt \<Rightarrow>
     if end_dt - start_dt > 365 * 30
     then (Inl (ValueError ''maximum period is 30 years''), w)
     else
       let params = nasa_request latitude longitude start_date end_date;
           w1 = w\<lparr>requests := requests w @ [params]\<rparr>
       in (case net params of
             Raises msg \<Rightarrow>
               (Inr None, w1\<lparr>printed := printed w1 @ [RequestError (TransportFailure msg)]\<rparr>)
           | Reply status data \<Rightarrow>
               if failure_status status
               then (Inr None, w1\<lparr>printed := printed w1 @ [RequestError (HTTPError status)]\<rparr>)
               else (case process_daily_data to_datetime data start_date end_date of
                       Inl e \<Rightarrow> (Inl e, w1)
                     | Inr df \<Rightarrow> (Inr (Some df), w1)))))"

section \<open>\<^verbatim>\<open>save_wth_file\<close>\<close>

text \<open>
  The file system is the set of directories and the contents of the files, by path.
  \<^verbatim>\<open>os.makedirs(p, exist_ok=True)\<close> fails when \<open>p\<close> is empty or names a file, and
  \<^verbatim>\<open>open(p, 'w')\<close> fails when \<open>p\<close> names a directory; other faults of the file system
  (permissions, a full disk) are not modelled.
\<close>

definition makedirs :: "string \<Rightarrow> world \<Rightarrow> py_error + world" where
  "makedirs folder w =
     (if folder = [] then Inl (FileNotFoundError folder)
      else if folder \<in> dom (files w) then Inl (FileExistsError folder)
      else Inr (w\<lparr>dirs := insert folder (dirs w)\<rparr>))"

definition os_path_join :: "string \<Rightarrow> string \<Rightarrow> string" where
  "os_path_join a b =
     (if take 1 b = ''/'' then b
      else if a = [] \<or> last a = CHR ''/'' then a @ b
      else a @ ''/'' @ b)"

definition write_file :: "string \<Rightarrow> string \<Rightarrow> world \<Rightarrow> py_error + world" where
  "write_file path content w =
     (if path \<in> dirs w then Inl (IsADirectoryError path)
      else Inr (w\<lparr>files := (files w)(path \<mapsto> content)\<rparr>))"

definition required_columns :: "(string \<times> string) list" where
  "required_columns =
     [(''T2M'', ''TAVG''), (''T2M_MAX'', ''TMAX''), (''T2M_MIN'', ''TMIN''),
      (''PRECTOTCORR'', ''RAIN''), (''ALLSKY_SFC_SW_DWN'', ''SRAD''), (''RH2M'', ''RHUM''),
      (''WS2M'', ''WIND'')]"

definition amplitude :: "cell \<Rightarrow> cell \<Rightarrow> cell" where
  "amplitude tmax tmin =
     (case (tmax, tmin) of (Some a, Some b) \<Rightarrow> Some ((a - b) / 2) | _ \<Rightarrow> None)"

definition wth_header :: "string \<Rightarrow> rat \<Rightarrow> rat \<Rightarrow> rat \<Rightarrow> cell \<Rightarrow> cell \<Rightarrow> string" where
  "wth_header site_code latitude longitude elevation tavg amp =
     ''*WEATHER DATA : '' @ site_code @ newline
     @ ''@ INSI      LAT     LONG  ELEV   TAV   AMP REFHT WNDHT'' @ newline
     @ ''  '' @ site_code @ ''  '' @ format_f 6 3 (Some latitude) @ '' ''
       @ format_f 6 3 (Some longitude) @ '' '' @ format_f 5 0 (Some elevation) @ ''  ''
       @ format_f 4 1 tavg @ ''  '' @ format_f 4 1 amp @ ''     2     2'' @ newline
     @ ''@DATE  SRAD  TMAX  TMIN  RAIN  RHUM  WIND'' @ newline"

definition data_line :: "string list \<Rightarrow> int \<times> cell list \<Rightarrow> string" where
  "data_line cols r =
     (case r of (date, row) \<Rightarrow>
        let srad = row_get cols row ''SRAD'' (Some (- 99));
            tmax = row_get cols row ''TMAX'' (Some (- 99));
            tmin = row_get cols row ''TMIN'' (Some (- 99));
            rain = row_get cols row ''RAIN'' (Some (- 99));
            rhum = row_get cols row ''RHUM'' (Some (- 99));
            wind = row_get cols row ''WIND'' (Some (- 99))
        in dssat_date date @ '' '' @ format_f 5 1 srad @ '' '' @ format_f 5 1 tmax @ '' ''
           @ format_f 5 1 tmin @ '' '' @ format_f 5 1 rain @ '' '' @ format_f 5 0 rhum @ '' ''
           @ format_f 5 1 wind)"

definition wth_data_lines :: "int dataframe \<Rightarrow> string list" where
  "wth_data_lines df = map (data_line (columns df)) (rows df)"

definition header_statistics :: "int dataframe \<Rightarrow> py_error + cell \<times> cell" where
  "header_statistics df =
     (case getitem df ''TAVG'' of
        Inl e \<Rightarrow> Inl e
      | Inr tavg_col \<Rightarrow>
     (case getitem df ''TMAX'' of
        Inl e \<Rightarrow> Inl e
      | Inr tmax_col \<Rightarrow>
     (case getitem df ''TMIN'' of
        Inl e \<Rightarrow> Inl e
      | Inr tmin_col \<Rightarrow>
          Inr (series_mean tavg_col, amplitude (series_max tmax_col) (series_min tmin_col)))))"

definition save_wth_file ::
  "int dataframe \<Rightarrow> string \<Rightarrow> rat \<Rightarrow> rat \<Rightarrow> rat \<Rightarrow> string \<Rightarrow> world \<Rightarrow> (py_error + unit) \<times> world" where
  "save_wth_file df0 site_code latitude longitude elevation output_folder w =
     (case makedirs output_folder w of
        Inl e \<Rightarrow> (Inl e, w)
      | Inr w1 \<Rightarrow>
     let df = rename required_columns df0
     in (case header_statistics df of
        Inl e \<Rightarrow> (Inl e, w1)
      | Inr (tavg, amp) \<Rightarrow>
     let header = wth_header site_code latitude longitude elevation tavg amp;
         data_lines = wth_data_lines df;
         output_file = os_path_join output_folder (''W'' @ site_code @ ''01.WTH'')
     in (case write_file output_file (header @ str_join newline data_lines) w1 of
        Inl e \<Rightarrow> (Inl e, w1)
      | Inr w2 \<Rightarrow> (Inr (), w2\<lparr>printed := printed w2 @ [WthCreated output_file]\<rparr>))))"

section \<open>\<^verbatim>\<open>main\<close>\<close>

text \<open>
  The local variable \<^verbatim>\<open>daily_data\<close> is bound only inside the first \<^verbatim>\<open>if\<close>; it is an
  option, \<open>None\<close> while the name is unbound, and reading the unbound name raises
  \<open>UnboundLocalError\<close>. A frame is never \<^verbatim>\<open>None\<close>, so the second test holds whenever the name
  is bound.
\<close>

definition main ::
  "(request \<Rightarrow> http_reply) \<Rightarrow> (string \<Rightarrow> int option) \<Rightarrow> world \<Rightarrow> (py_error + unit) \<times> world" where
  "main net to_datetime w =
     (let latitude = - (1354 / 100);
          longitude = - (5882 / 100);
          site_code = ''BRMT'';
          elevation = 370
      in (case get_daily_nasa_power_data net to_datetime latitude longitude
                 ''19940101'' ''20141231'' w of
            (Inl e, w1) \<Rightarrow> (Inl e, w1)
          | (Inr period1_data, w1) \<Rightarrow>
         (case get_daily_nasa_power_data net to_datetime latitude longitude
                 ''20150101'' ''20241231'' w1 of
            (Inl e, w2) \<Rightarrow> (Inl e, w2)
          | (Inr period2_data, w2) \<Rightarrow>
         (case (case (period1_data, period2_data) of
                  (Some p1, Some p2) \<Rightarrow> Some (pd_concat p1 p2)
                | _ \<Rightarrow> None) of
            None \<Rightarrow> (Inl (UnboundLocalError ''daily_data''), w2)
          | Some daily_data \<Rightarrow>
              (case save_wth_file daily_data site_code latitude longitude elevation
                      ''./output'' w2 of
                 (Inl e, w3) \<Rightarrow> (Inl e, w3)
               | (Inr u, w3) \<Rightarrow>
                   (Inr (), w3\<lparr>printed := printed w3 @ [SummaryTitle, Describe daily_data]\<rparr>))))))"


section \<open>Notions used to state the properties\<close>

text \<open>
  The labels a response carries for the seven parameters and the days they denote, the number
  of days of a year, the correctness of a decoded date, and the fixtures of the examples: an
  untouched world, a parser of labels that accepts what \<^verbatim>\<open>strptime\<close> accepts, and a
  response that mentions one day only.
\<close>


definition ok_ymd :: "int \<Rightarrow> int \<times> int \<times> int \<Rightarrow> bool" where
  "ok_ymd n t = (case t of (y, m, d) \<Rightarrow> 1 \<le> m \<and> m \<le> 12 \<and> 1 \<le> d \<and> d \<le> days_in_month y m
      \<and> ymd2ord y m d = n)"

definition days_in_year :: "int \<Rightarrow> int" where
  "days_in_year y = (if is_leap y then 366 else 365)"


definition response_labels :: "(string \<times> (string \<times> cell) list) list \<Rightarrow> string list" where
  "response_labels data =
     concat (map (\<lambda>p. case map_of data p of Some col \<Rightarrow> map fst col | None \<Rightarrow> []) parameters)"

definition response_days ::
  "(string \<Rightarrow> int option) \<Rightarrow> (string \<times> (string \<times> cell) list) list \<Rightarrow> int set" where
  "response_days to_datetime data = set (List.map_filter to_datetime (response_labels data))"

definition world0 :: world where
  "world0 = \<lparr>requests = [], printed = [], dirs = {}, files = Map.empty\<rparr>"

definition strict_parser :: "string \<Rightarrow> int option" where
  "strict_parser k = (case strptime_Ymd k of Inr n \<Rightarrow> Some n | Inl e \<Rightarrow> None)"

definition sample_body :: "(string \<times> (string \<times> cell) list) list" where
  "sample_body = map (\<lambda>p. (p, [(''20200102'', Some 1)])) parameters"

text \<open>
  Further fixtures: the frame fetched for 2020-01-01 to 2020-01-03 from the response above, a
  world in which the output folder and the output file exist already, and a frame of four
  days with some values missing.
\<close>


definition sample_frame :: "int dataframe" where
  "sample_frame = \<lparr>columns = parameters,
                    rows = [(737425, replicate 7 None), (737426, replicate 7 (Some 1)),
                            (737427, replicate 7 None)]\<rparr>"






section \<open>The calendar: decoding inverts encoding\<close>


lemma div_eqI: "x = b * q + r \<Longrightarrow> 0 \<le> r \<Longrightarrow> r < b \<Longrightarrow> x div b = (q::int)"
  by simp

lemma mod_eqI: "x = b * q + r \<Longrightarrow> 0 \<le> r \<Longrightarrow> r < b \<Longrightarrow> x mod b = (r::int)"
  by simp

lemma is_leap_decomp:
  fixes a b c e :: int
  assumes "0 \<le> b" "b \<le> 3" "0 \<le> c" "c \<le> 24" "0 \<le> e" "e \<le> 3"
  shows "is_leap (400*a + 100*b + 4*c + e + 1) \<longleftrightarrow> e = 3 \<and> (c \<noteq> 24 \<or> b = 3)"
proof -
  let ?y = "400*a + 100*b + 4*c + e + 1"
  show ?thesis
  proof (cases "e = 3")
    case False
    have "?y mod 4 = e + 1"
      by (rule mod_eqI [where q = "100*a + 25*b + c"]) (use assms False in simp_all)
    with False assms show ?thesis by (simp add: is_leap_def)
  next
    case e3: True
    have m4: "?y mod 4 = 0"
      by (rule mod_eqI [where q = "100*a + 25*b + c + 1"]) (use assms e3 in simp_all)
    show ?thesis
    proof (cases "c = 24")
      case False
      have "?y mod 100 = 4*c + 4"
        by (rule mod_eqI [where q = "4*a + b"]) (use assms e3 False in simp_all)
      with False assms e3 m4 show ?thesis by (simp add: is_leap_def)
    next
      case c24: True
      have m100: "?y mod 100 = 0"
        by (rule mod_eqI [where q = "4*a + b + 1"]) (use assms e3 c24 in simp_all)
      show ?thesis
      proof (cases "b = 3")
        case True
        have "?y mod 400 = 0"
          by (rule mod_eqI [where q = "a + 1"]) (use assms e3 c24 True in simp_all)
        with True e3 c24 m4 m100 show ?thesis by (simp add: is_leap_def)
      next
        case False
        have "?y mod 400 = 100 * (b + 1)"
          by (rule mod_eqI [where q = "a"]) (use assms e3 c24 False in simp_all)
        with False e3 c24 m4 m100 assms show ?thesis by (simp add: is_leap_def)
      qed
    qed
  qed
qed

lemma enum12: "1 \<le> (m::int) \<Longrightarrow> m \<le> 12 \<Longrightarrow> m = 1 \<or> m = 2 \<or> m = 3 \<or> m = 4 \<or> m = 5 \<or> m = 6
     \<or> m = 7 \<or> m = 8 \<or> m = 9 \<or> m = 10 \<or> m = 11 \<or> m = 12"
  by presburger

lemma month_part:
  fixes r :: int and y :: int
  assumes "0 \<le> r" "r < (if lp then 366 else 365)"
  defines "month \<equiv> (r + 50) div 32"
  defines "preceding \<equiv> DAYS_BEFORE_MONTH ! nat month + (if month > 2 \<and> lp then 1 else 0)"
  defines "res \<equiv> (if preceding > r
                    then (y, month - 1, r - (preceding - (DAYS_IN_MONTH ! nat (month - 1)
                                   + (if month - 1 = 2 \<and> lp then 1 else 0))) + 1)
                    else (y, month, r - preceding + 1))"
  shows "case res of (y', m, d) \<Rightarrow> y' = y \<and> 1 \<le> m \<and> m \<le> 12 \<and> 1 \<le> d
           \<and> d \<le> DAYS_IN_MONTH ! nat m + (if m = 2 \<and> lp then 1 else 0)
           \<and> DAYS_BEFORE_MONTH ! nat m + (if m > 2 \<and> lp then 1 else 0) + d = r + 1"
proof -
  have eq: "r + 50 = 32 * month + (r + 50) mod 32"
    unfolding month_def by simp
  have lo: "0 \<le> (r + 50) mod 32" and hi: "(r + 50) mod 32 < 32" by simp_all
  have rb: "r < 366" using assms(2) by (simp split: if_splits)
  have "1 \<le> month" "month \<le> 12" using eq lo hi assms(1) rb by linarith+
  then have "month = 1 \<or> month = 2 \<or> month = 3 \<or> month = 4 \<or> month = 5 \<or> month = 6
     \<or> month = 7 \<or> month = 8 \<or> month = 9 \<or> month = 10 \<or> month = 11 \<or> month = 12"
    by (rule enum12)
  moreover have b1: "32 * month \<le> r + 50" and b2: "r + 50 < 32 * month + 32"
    using eq lo hi by linarith+
  ultimately show ?thesis
    using b1 b2 assms(1,2) unfolding res_def preceding_def
    by (elim disjE) (simp_all add: DAYS_BEFORE_MONTH_def DAYS_IN_MONTH_def split: if_splits)
qed


lemma dby_decomp:
  fixes a b c e :: int
  assumes "0 \<le> b" "b \<le> 3" "0 \<le> c" "c \<le> 24" "0 \<le> e" "e \<le> 3"
  shows "days_before_year (400*a + 100*b + 4*c + e + 1) = 146097*a + 36524*b + 1461*c + 365*e"
proof -
  let ?y = "400*a + 100*b + 4*c + e"
  have d4: "?y div 4 = 100*a + 25*b + c"
    by (rule div_eqI [where r = e]) (use assms in simp_all)
  have d100: "?y div 100 = 4*a + b"
    by (rule div_eqI [where r = "4*c + e"]) (use assms in simp_all)
  have d400: "?y div 400 = a"
    by (rule div_eqI [where r = "100*b + 4*c + e"]) (use assms in simp_all)
  show ?thesis unfolding days_before_year_def Let_def using d4 d100 d400 by simp
qed

lemma ord2ymd_sound: "ok_ymd n (ord2ymd n)"
proof -
  define a where "a = (n - 1) div 146097"
  define r1 where "r1 = (n - 1) mod 146097"
  define b where "b = r1 div 36524"
  define r2 where "r2 = r1 mod 36524"
  define c where "c = r2 div 1461"
  define r3 where "r3 = r2 mod 1461"
  define e where "e = r3 div 365"
  define r where "r = r3 mod 365"
  define Y where "Y = a * 400 + 1 + b * 100 + c * 4 + e"
  define lp where "lp = (e = 3 \<and> (c \<noteq> 24 \<or> b = 3))"
  define month where "month = (r + 50) div 32"
  define preceding where "preceding = DAYS_BEFORE_MONTH ! nat month + (if month > 2 \<and> lp then 1 else 0)"
  define res where "res = (if preceding > r
                    then (Y, month - 1, r - (preceding - (DAYS_IN_MONTH ! nat (month - 1)
                                   + (if month - 1 = 2 \<and> lp then 1 else 0))) + 1)
                    else (Y, month, r - preceding + 1))"
  have unf: "ord2ymd n = (if e = 4 \<or> b = 4 then (Y - 1, 12, 31) else res)"
    unfolding ord2ymd_def Let_def res_def preceding_def month_def lp_def Y_def
      r_def e_def r3_def c_def r2_def b_def r1_def a_def
    by (rule refl)
  have Yeq: "Y = 400*a + 100*b + 4*c + e + 1" by (simp add: Y_def)
  have n1: "n - 1 = 146097 * a + r1" and r1b: "0 \<le> r1" "r1 < 146097"
    by (simp_all add: a_def r1_def)
  have e1: "r1 = 36524 * b + r2" and r2b: "0 \<le> r2" "r2 < 36524"
    by (simp_all add: b_def r2_def)
  have e2: "r2 = 1461 * c + r3" and r3b: "0 \<le> r3" "r3 < 1461"
    by (simp_all add: c_def r3_def)
  have e3: "r3 = 365 * e + r" and rb: "0 \<le> r" "r < 365"
    by (simp_all add: e_def r_def)
  have bb: "0 \<le> b" "b \<le> 4" using e1 r1b r2b by linarith+
  have cb: "0 \<le> c" "c \<le> 24" using e2 r2b r3b by linarith+
  have eb: "0 \<le> e" "e \<le> 4" using e3 r3b rb by linarith+
  show ?thesis
  proof (cases "b = 4")
    case True
    have z: "r2 = 0" using True e1 r1b r2b by linarith
    have c0: "c = 0" and r30: "r3 = 0" using z e2 cb r3b by linarith+
    have e0: "e = 0" and r0: "r = 0" using r30 e3 eb rb by linarith+
    have Y1: "Y - 1 = 400*a + 100*3 + 4*24 + 3 + 1" by (simp add: Yeq True c0 e0)
    have L: "is_leap (Y - 1)" unfolding Y1 by (subst is_leap_decomp) simp_all
    have D: "days_before_year (Y - 1) = 146097*a + 36524*3 + 1461*24 + 365*3"
      unfolding Y1 by (subst dby_decomp) simp_all
    have N: "n = 146097 * a + 146097" using n1 e1 z True by linarith
    have "ord2ymd n = (Y - 1, 12, 31)" using True by (simp add: unf)
    then show ?thesis
      using L D N
      by (simp add: ok_ymd_def days_in_month_def ymd2ord_def days_before_month_def
            DAYS_IN_MONTH_def DAYS_BEFORE_MONTH_def)
  next
    case b4: False
    then have b3: "b \<le> 3" using bb by linarith
    show ?thesis
    proof (cases "e = 4")
      case True
      have r0: "r = 0" using True e3 r3b rb by linarith
      have c23: "c \<le> 23" using True e3 e2 r2b rb by linarith
      have Y1: "Y - 1 = 400*a + 100*b + 4*c + 3 + 1" by (simp add: Yeq True)
      have L: "is_leap (Y - 1)" unfolding Y1 using bb b3 cb c23 by (subst is_leap_decomp) simp_all
      have D: "days_before_year (Y - 1) = 146097*a + 36524*b + 1461*c + 365*3"
        unfolding Y1 using bb b3 cb by (subst dby_decomp) simp_all
      have N: "n = 146097 * a + 36524 * b + 1461 * c + 1461" using n1 e1 e2 e3 True r0 by linarith
      have "ord2ymd n = (Y - 1, 12, 31)" using True by (simp add: unf)
      then show ?thesis
        using L D N
        by (simp add: ok_ymd_def days_in_month_def ymd2ord_def days_before_month_def
              DAYS_IN_MONTH_def DAYS_BEFORE_MONTH_def)
    next
      case e4: False
      then have e3': "e \<le> 3" using eb by linarith
      have L: "is_leap Y = lp" unfolding Yeq lp_def using bb(1) b3 cb eb(1) e3' by (rule is_leap_decomp)
      have D: "days_before_year Y = 146097*a + 36524*b + 1461*c + 365*e"
        unfolding Yeq using bb(1) b3 cb eb(1) e3' by (rule dby_decomp)
      have N: "n = days_before_year Y + r + 1" using n1 e1 e2 e3 D by linarith
      have rb': "r < (if lp then 366 else 365)" using rb by simp
      obtain y' m d where R: "res = (y', m, d)" by (cases res) auto
      from month_part [OF rb(1) rb', of Y, folded month_def, folded preceding_def, folded res_def]
      have M: "y' = Y" "1 \<le> m" "m \<le> 12" "1 \<le> d"
        "d \<le> DAYS_IN_MONTH ! nat m + (if m = 2 \<and> lp then 1 else 0)"
        "DAYS_BEFORE_MONTH ! nat m + (if m > 2 \<and> lp then 1 else 0) + d = r + 1"
        by (simp_all add: R)
      have dim: "days_in_month Y m = DAYS_IN_MONTH ! nat m + (if m = 2 \<and> lp then 1 else 0)"
        by (simp add: days_in_month_def L DAYS_IN_MONTH_def)
      have "ord2ymd n = (Y, m, d)" using b4 e4 R M(1) by (simp add: unf)
      then show ?thesis
        using M N dim
        by (simp add: ok_ymd_def ymd2ord_def days_before_month_def L)
    qed
  qed
qed


lemma div_step:
  fixes y k :: int
  assumes "0 < k"
  shows "y div k = (y - 1) div k + (if y mod k = 0 then 1 else 0)"
proof (cases "y mod k = 0")
  case True
  have "(y - 1) div k = y div k - 1"
  proof (rule div_eqI [where r = "k - 1"])
    have "y = k * (y div k) + y mod k" by simp
    with True show "y - 1 = k * (y div k - 1) + (k - 1)" by (simp add: algebra_simps)
  qed (use assms in simp_all)
  with True show ?thesis by simp
next
  case False
  have lo: "0 \<le> y mod k" and hi: "y mod k < k" using assms by simp_all
  have "(y - 1) div k = y div k"
  proof (rule div_eqI [where r = "y mod k - 1"])
    have "y = k * (y div k) + y mod k" by simp
    then show "y - 1 = k * (y div k) + (y mod k - 1)" by simp
  qed (use False lo hi in simp_all)
  with False show ?thesis by simp
qed

lemma dby_Suc: "days_before_year (y + 1) = days_before_year y + days_in_year y"
proof -
  define P4 where "P4 \<longleftrightarrow> y mod 4 = 0"
  define P100 where "P100 \<longleftrightarrow> y mod 100 = 0"
  define P400 where "P400 \<longleftrightarrow> y mod 400 = 0"
  define q4 where "q4 = (y - 1) div 4"
  define q100 where "q100 = (y - 1) div 100"
  define q400 where "q400 = (y - 1) div 400"
  have a: "y div 4 = q4 + (if P4 then 1 else 0)"
    unfolding P4_def q4_def by (rule div_step) simp
  have b: "y div 100 = q100 + (if P100 then 1 else 0)"
    unfolding P100_def q100_def by (rule div_step) simp
  have c: "y div 400 = q400 + (if P400 then 1 else 0)"
    unfolding P400_def q400_def by (rule div_step) simp
  have d: "P100 \<Longrightarrow> P4" unfolding P100_def P4_def by presburger
  have e: "P400 \<Longrightarrow> P100" unfolding P400_def P100_def by presburger
  have L: "is_leap y \<longleftrightarrow> P4 \<and> (\<not> P100 \<or> P400)"
    unfolding is_leap_def P4_def P100_def P400_def by (rule refl)
  have E1: "days_before_year (y + 1) = y * 365 + y div 4 - y div 100 + y div 400"
    by (simp add: days_before_year_def)
  have E2: "days_before_year y = (y - 1) * 365 + q4 - q100 + q400"
    by (simp add: days_before_year_def Let_def q4_def q100_def q400_def)
  show ?thesis
    unfolding E1 E2 a b c days_in_year_def L using d e
    by (cases P4; cases P100; cases P400; simp add: algebra_simps)
qed

lemma dby_mono: "y \<le> y' \<Longrightarrow> days_before_year y \<le> days_before_year y'"
proof (induction y' rule: int_ge_induct)
  case base
  show ?case by simp
next
  case (step i)
  have "days_before_year (i + 1) = days_before_year i + days_in_year i" by (rule dby_Suc)
  moreover have "0 \<le> days_in_year i" by (simp add: days_in_year_def)
  ultimately show ?case using step.IH by linarith
qed


lemma yday_bounds:
  assumes "1 \<le> m" "m \<le> 12" "1 \<le> d" "d \<le> days_in_month y m"
  shows "1 \<le> days_before_month y m + d" "days_before_month y m + d \<le> days_in_year y"
proof -
  from enum12 [OF assms(1,2)] assms(3,4)
  show "1 \<le> days_before_month y m + d"
    by (elim disjE) (simp_all add: days_before_month_def DAYS_BEFORE_MONTH_def)
  from enum12 [OF assms(1,2)] assms(3,4)
  show "days_before_month y m + d \<le> days_in_year y"
    by (elim disjE)
       (simp_all add: days_before_month_def DAYS_BEFORE_MONTH_def days_in_month_def
          DAYS_IN_MONTH_def days_in_year_def split: if_splits)
qed

lemma dbm_next:
  assumes "1 \<le> m" "m \<le> 11"
  shows "days_before_month y (m + 1) = days_before_month y m + days_in_month y m"
proof -
  have "m \<le> 12" using assms by simp
  from enum12 [OF assms(1) this] assms(2) show ?thesis
    by (elim disjE)
       (simp_all add: days_before_month_def DAYS_BEFORE_MONTH_def days_in_month_def DAYS_IN_MONTH_def)
qed

lemma dim_pos: "1 \<le> m \<Longrightarrow> m \<le> 12 \<Longrightarrow> 28 \<le> days_in_month y m"
  by (drule (1) enum12, elim disjE) (simp_all add: days_in_month_def DAYS_IN_MONTH_def)

lemma dbm_mono:
  assumes "1 \<le> m" "m \<le> m'" "m' \<le> 12"
  shows "days_before_month y m \<le> days_before_month y m'"
  using assms(2,1,3)
proof (induction m' rule: int_ge_induct)
  case base
  show ?case by simp
next
  case (step i)
  have "days_before_month y (i + 1) = days_before_month y i + days_in_month y i"
    using step by (intro dbm_next) simp_all
  moreover have "28 \<le> days_in_month y i" using step by (intro dim_pos) simp_all
  moreover have "days_before_month y m \<le> days_before_month y i" using step by simp
  ultimately show ?case by linarith
qed

lemma month_less:
  assumes "1 \<le> m" "m < m'" "m' \<le> 12" "d \<le> days_in_month y m" "1 \<le> d'"
  shows "days_before_month y m + d < days_before_month y m' + d'"
proof -
  have "days_before_month y (m + 1) = days_before_month y m + days_in_month y m"
    using assms by (intro dbm_next) simp_all
  moreover have "days_before_month y (m + 1) \<le> days_before_month y m'"
    using assms by (intro dbm_mono) simp_all
  ultimately show ?thesis using assms(4,5) by linarith
qed

lemma year_less:
  assumes "y < y'" "1 \<le> m" "m \<le> 12" "1 \<le> d" "d \<le> days_in_month y m"
    "1 \<le> m'" "m' \<le> 12" "1 \<le> d'" "d' \<le> days_in_month y' m'"
  shows "ymd2ord y m d < ymd2ord y' m' d'"
proof -
  have "days_before_year (y + 1) \<le> days_before_year y'" using assms(1) by (intro dby_mono) simp
  moreover have "days_before_year (y + 1) = days_before_year y + days_in_year y" by (rule dby_Suc)
  moreover have "days_before_month y m + d \<le> days_in_year y" using assms(2-5) by (rule yday_bounds)
  moreover have "1 \<le> days_before_month y' m' + d'" using assms(6-9) by (rule yday_bounds)
  ultimately show ?thesis unfolding ymd2ord_def by linarith
qed

lemma ymd2ord_inj:
  assumes "1 \<le> m" "m \<le> 12" "1 \<le> d" "d \<le> days_in_month y m"
    "1 \<le> m'" "m' \<le> 12" "1 \<le> d'" "d' \<le> days_in_month y' m'"
    "ymd2ord y m d = ymd2ord y' m' d'"
  shows "y = y' \<and> m = m' \<and> d = d'"
proof -
  have y: "y = y'"
  proof (rule ccontr)
    assume "y \<noteq> y'"
    then consider "y < y'" | "y' < y" by linarith
    then show False
    proof cases
      case 1
      from year_less [OF 1 assms(1-8)] assms(9) show False by simp
    next
      case 2
      from year_less [OF 2 assms(5-8) assms(1-4)] assms(9) show False by simp
    qed
  qed
  have e: "days_before_month y m + d = days_before_month y m' + d'"
    using assms(9) y by (simp add: ymd2ord_def)
  have m: "m = m'"
  proof (rule ccontr)
    assume "m \<noteq> m'"
    then consider "m < m'" | "m' < m" by linarith
    then show False
    proof cases
      case 1
      from month_less [OF assms(1) 1 assms(6) assms(4) assms(7)] e show False by simp
    next
      case 2
      from month_less [OF assms(5) 2 assms(2), of d' y d] assms(8) assms(3) e y show False by simp
    qed
  qed
  from e m have "d = d'" by simp
  with y m show ?thesis by simp
qed

lemma ord2ymd_ymd2ord:
  assumes "1 \<le> m" "m \<le> 12" "1 \<le> d" "d \<le> days_in_month y m"
  shows "ord2ymd (ymd2ord y m d) = (y, m, d)"
proof -
  obtain y' m' d' where R: "ord2ymd (ymd2ord y m d) = (y', m', d')"
    by (cases "ord2ymd (ymd2ord y m d)") auto
  from ord2ymd_sound [of "ymd2ord y m d"] R
  have S: "1 \<le> m'" "m' \<le> 12" "1 \<le> d'" "d' \<le> days_in_month y' m'"
    "ymd2ord y' m' d' = ymd2ord y m d"
    by (simp_all add: ok_ymd_def)
  from ymd2ord_inj [OF S(1-4) assms S(5)] R show ?thesis by simp
qed


lemma tm_yday_bounds: "1 \<le> tm_yday n" "tm_yday n \<le> 366"
proof -
  obtain y m d where R: "ord2ymd n = (y, m, d)" by (cases "ord2ymd n") auto
  from ord2ymd_sound [of n] R
  have S: "1 \<le> m" "m \<le> 12" "1 \<le> d" "d \<le> days_in_month y m" by (simp_all add: ok_ymd_def)
  from yday_bounds [OF S] R show "1 \<le> tm_yday n" by (simp add: tm_yday_def)
  have "days_in_year y \<le> 366" by (simp add: days_in_year_def)
  with yday_bounds(2) [OF S] R show "tm_yday n \<le> 366" by (simp add: tm_yday_def)
qed



lemma str_nat_1: "n < 10 \<Longrightarrow> str_nat n = [digit_char n]"
  by (subst str_nat.simps) simp

lemma str_nat_2: "10 \<le> n \<Longrightarrow> n < 100 \<Longrightarrow> str_nat n = [digit_char (n div 10), digit_char (n mod 10)]"
  by (subst str_nat.simps) (simp add: str_nat_1)

lemma str_nat_3: "100 \<le> n \<Longrightarrow> n < 1000 \<Longrightarrow>
    str_nat n = [digit_char (n div 100), digit_char (n div 10 mod 10), digit_char (n mod 10)]"
  by (subst str_nat.simps) (simp add: str_nat_2 div_mult2_eq [symmetric])

lemma zfill_2: "n < 100 \<Longrightarrow> zfill 2 (str_nat n) = [digit_char (n div 10), digit_char (n mod 10)]"
  by (cases "n < 10") (simp_all add: zfill_def str_nat_1 str_nat_2 digit_char_def)

lemma zfill_3: "n < 1000 \<Longrightarrow>
    zfill 3 (str_nat n) = [digit_char (n div 100), digit_char (n div 10 mod 10), digit_char (n mod 10)]"
proof -
  assume n: "n < 1000"
  consider "n < 10" | "10 \<le> n" "n < 100" | "100 \<le> n" by linarith
  then show ?thesis
  proof cases
    case 1 then show ?thesis by (simp add: zfill_def str_nat_1 digit_char_def numeral_3_eq_3)
  next
    case 2 then show ?thesis by (simp add: zfill_def str_nat_2 digit_char_def)
  next
    case 3 then show ?thesis using n by (simp add: zfill_def str_nat_3)
  qed
qed



lemma dssat_date_digits:
  "dssat_date n =
     [digit_char (nat (year_of n mod 100) div 10), digit_char (nat (year_of n mod 100) mod 10),
      digit_char (nat (tm_yday n) div 100), digit_char (nat (tm_yday n) div 10 mod 10),
      digit_char (nat (tm_yday n) mod 10)]"
proof -
  have "nat (year_of n mod 100) < 100" by simp
  moreover have "nat (tm_yday n) < 1000" using tm_yday_bounds(2) [of n] by simp
  ultimately show ?thesis
    by (simp add: dssat_date_def strftime_y_def Let_def zfill_2 zfill_3)
qed





text \<open>
  Claim C5. For every calendar date (a valid year, month and day), the date token the writer
  emits for that day has exactly 5 characters: the two decimal digits of the year modulo 100
  followed by the three decimal digits, zero padded, of the ordinal day of the year.
  In particular 2020-03-05 is encoded as 20065 and 2020-01-01 as 20001.
\<close>

theorem dssat_date_token:
  assumes "valid_date y m d"
  shows "length (dssat_date (ymd2ord y m d)) = 5
     \<and> dssat_date (ymd2ord y m d) =
         [digit_char (nat (y mod 100) div 10), digit_char (nat (y mod 100) mod 10),
          digit_char (nat (days_before_month y m + d) div 100),
          digit_char (nat (days_before_month y m + d) div 10 mod 10),
          digit_char (nat (days_before_month y m + d) mod 10)]
     \<and> 1 \<le> days_before_month y m + d \<and> days_before_month y m + d \<le> 366
     \<and> dssat_date (ymd2ord 2020 3 5) = ''20065''
     \<and> dssat_date (ymd2ord 2020 1 1) = ''20001''"
proof -
  have v: "1 \<le> m" "m \<le> 12" "1 \<le> d" "d \<le> days_in_month y m"
    using assms by (simp_all add: valid_date_def)
  have r: "ord2ymd (ymd2ord y m d) = (y, m, d)" using v by (rule ord2ymd_ymd2ord)
  have yr: "year_of (ymd2ord y m d) = y" and jd: "tm_yday (ymd2ord y m d) = days_before_month y m + d"
    by (simp_all add: year_of_def tm_yday_def r)
  have a: "dssat_date (ymd2ord y m d) =
         [digit_char (nat (y mod 100) div 10), digit_char (nat (y mod 100) mod 10),
          digit_char (nat (days_before_month y m + d) div 100),
          digit_char (nat (days_before_month y m + d) div 10 mod 10),
          digit_char (nat (days_before_month y m + d) mod 10)]"
    by (simp add: dssat_date_digits yr jd)
  have b: "1 \<le> days_before_month y m + d" "days_before_month y m + d \<le> 366"
    using tm_yday_bounds [of "ymd2ord y m d"] by (simp_all add: jd)
  have r1: "ord2ymd (ymd2ord 2020 3 5) = (2020, 3, 5)"
    by (rule ord2ymd_ymd2ord) (simp_all add: days_in_month_def DAYS_IN_MONTH_def)
  have r2: "ord2ymd (ymd2ord 2020 1 1) = (2020, 1, 1)"
    by (rule ord2ymd_ymd2ord) (simp_all add: days_in_month_def DAYS_IN_MONTH_def)
  have c: "dssat_date (ymd2ord 2020 3 5) = ''20065''"
    by (simp add: dssat_date_digits year_of_def tm_yday_def r1 days_before_month_def
          DAYS_BEFORE_MONTH_def is_leap_def digit_char_def)
  have e: "dssat_date (ymd2ord 2020 1 1) = ''20001''"
    by (simp add: dssat_date_digits year_of_def tm_yday_def r2 days_before_month_def
          DAYS_BEFORE_MONTH_def is_leap_def digit_char_def)
  show ?thesis using a b c e by simp
qed

theorem dssat_date_token_witness:
  "valid_date 2024 12 31 \<and> dssat_date (ymd2ord 2024 12 31) = ''24366''"
proof -
  have v: "valid_date 2024 12 31"
    by (simp add: valid_date_def days_in_month_def DAYS_IN_MONTH_def)
  from dssat_date_token [OF v] v show ?thesis
    by (simp add: days_before_month_def DAYS_BEFORE_MONTH_def is_leap_def digit_char_def)
qed


section \<open>Properties of the fetch\<close>


lemma strptime_19900101: "strptime_Ymd ''19900101'' = Inr 726468"
  by (simp add: strptime_Ymd_def regex_Y_def regex_m_def regex_d_def is_digit_def digit_val_def
        valid_date_def days_in_month_def DAYS_IN_MONTH_def ymd2ord_def days_before_year_def
        days_before_month_def DAYS_BEFORE_MONTH_def is_leap_def)

lemma strptime_20241231: "strptime_Ymd ''20241231'' = Inr 739251"
  by (simp add: strptime_Ymd_def regex_Y_def regex_m_def regex_d_def is_digit_def digit_val_def
        valid_date_def days_in_month_def DAYS_IN_MONTH_def ymd2ord_def days_before_year_def
        days_before_month_def DAYS_BEFORE_MONTH_def is_leap_def)

lemma strptime_20200101: "strptime_Ymd ''20200101'' = Inr 737425"
  by (simp add: strptime_Ymd_def regex_Y_def regex_m_def regex_d_def is_digit_def digit_val_def
        valid_date_def days_in_month_def DAYS_IN_MONTH_def ymd2ord_def days_before_year_def
        days_before_month_def DAYS_BEFORE_MONTH_def is_leap_def)

lemma strptime_20200102: "strptime_Ymd ''20200102'' = Inr 737426"
  by (simp add: strptime_Ymd_def regex_Y_def regex_m_def regex_d_def is_digit_def digit_val_def
        valid_date_def days_in_month_def DAYS_IN_MONTH_def ymd2ord_def days_before_year_def
        days_before_month_def DAYS_BEFORE_MONTH_def is_leap_def)

lemma strptime_20200103: "strptime_Ymd ''20200103'' = Inr 737427"
  by (simp add: strptime_Ymd_def regex_Y_def regex_m_def regex_d_def is_digit_def digit_val_def
        valid_date_def days_in_month_def DAYS_IN_MONTH_def ymd2ord_def days_before_year_def
        days_before_month_def DAYS_BEFORE_MONTH_def is_leap_def)

lemma select_parameters_error:
  "select_parameters ps data = Inl e \<Longrightarrow> \<exists>p. e = KeyError p"
  by (induction ps arbitrary: e) (auto split: option.splits sum.splits)

lemma process_daily_data_error:
  "process_daily_data to_dt data sd ed \<noteq> Inl (ValueError ''maximum period is 30 years'')"
proof
  assume a: "process_daily_data to_dt data sd ed = Inl (ValueError ''maximum period is 30 years'')"
  show False
  proof (cases "select_parameters parameters data")
    case (Inl e)
    with select_parameters_error [OF Inl] a show False
      by (auto simp: process_daily_data_def)
  next
    case (Inr daily)
    with a show False
      by (auto simp: process_daily_data_def set_index_to_datetime_def date_range_def reindex_def
            split: sum.splits if_splits option.splits prod.splits)
  qed
qed

lemma select_parameters_ok:
  "select_parameters ps data = Inr daily \<Longrightarrow>
     daily = map (\<lambda>p. (p, the (map_of data p))) ps \<and> (\<forall>p \<in> set ps. map_of data p \<noteq> None)"
  by (induction ps arbitrary: daily) (auto split: option.splits sum.splits)

lemma map_of_graph:
  "map_of (map (\<lambda>d. (d, f d)) xs) d = (if d \<in> set xs then Some (f d) else None)"
  by (induction xs) auto

lemma index_pd_DataFrame:
  assumes "select_parameters parameters data = Inr daily"
  shows "set (index (pd_DataFrame daily)) = set (response_labels data)"
    and "columns (pd_DataFrame daily) = parameters"
proof -
  from select_parameters_ok [OF assms]
  have d: "daily = map (\<lambda>p. (p, the (map_of data p))) parameters"
    and n: "\<forall>p \<in> set parameters. map_of data p \<noteq> None" by simp_all
  have "map (\<lambda>(name, col). map fst col) daily
        = map (\<lambda>p. case map_of data p of Some col \<Rightarrow> map fst col | None \<Rightarrow> []) parameters"
    unfolding d using n by (auto simp: comp_def split: option.splits)
  then show "set (index (pd_DataFrame daily)) = set (response_labels data)"
    by (simp add: index_def pd_DataFrame_def response_labels_def comp_def)
  show "columns (pd_DataFrame daily) = parameters"
    unfolding d by (simp add: pd_DataFrame_def comp_def)
qed

lemma process_daily_data_success:
  assumes "process_daily_data to_dt data sd ed = Inr df"
  shows "\<exists>s e. to_dt sd = Some s \<and> to_dt ed = Some e \<and> columns df = parameters
           \<and> index df = [s..e]
           \<and> (\<forall>d \<in> {s..e}. d \<notin> response_days to_dt data \<longrightarrow>
                 map_of (rows df) d = Some (replicate 7 None))"
proof -
  from assms obtain daily where sel: "select_parameters parameters data = Inr daily"
    by (auto simp: process_daily_data_def split: sum.splits)
  let ?f = "pd_DataFrame daily"
  from assms sel obtain df1 where dt: "set_index_to_datetime to_dt ?f = Inr df1"
    by (auto simp: process_daily_data_def split: sum.splits)
  from assms sel dt obtain full_range where dr: "date_range to_dt sd ed = Inr full_range"
    and re: "reindex df1 full_range = Inr df"
    by (auto simp: process_daily_data_def split: sum.splits)
  from dr obtain s e where s: "to_dt sd = Some s" and e: "to_dt ed = Some e"
    and fr: "full_range = [s..e]"
    by (auto simp: date_range_def split: option.splits)
  from dt have parsed: "\<forall>k \<in> set (index ?f). to_dt k \<noteq> None"
    and df1: "df1 = \<lparr>columns = columns ?f,
                     rows = map (\<lambda>(k, cells). (the (to_dt k), cells)) (rows ?f)\<rparr>"
    by (auto simp: set_index_to_datetime_def split: if_splits)
  have cols1: "columns df1 = parameters"
    using index_pd_DataFrame(2) [OF sel] by (simp add: df1)
  from re have df: "df = \<lparr>columns = columns df1,
        rows = map (\<lambda>d. (d, case map_of (rows df1) d of Some cells \<Rightarrow> cells
                               | None \<Rightarrow> replicate (length (columns df1)) None)) full_range\<rparr>"
    by (auto simp: reindex_def split: if_splits)
  have cols: "columns df = parameters" by (simp add: df cols1)
  have idx: "index df = [s..e]" by (simp add: df index_def fr comp_def)
  have miss: "map_of (rows df) d = Some (replicate 7 None)"
    if "d \<in> {s..e}" "d \<notin> response_days to_dt data" for d
  proof -
    have "d \<notin> fst ` set (rows df1)"
    proof
      assume "d \<in> fst ` set (rows df1)"
      then obtain k where k: "k \<in> set (index ?f)" and dk: "d = the (to_dt k)"
        by (force simp: df1 index_def)
      from parsed k dk have "to_dt k = Some d" by auto
      moreover from k have "k \<in> set (response_labels data)"
        using index_pd_DataFrame(1) [OF sel] by simp
      ultimately have "d \<in> response_days to_dt data"
        by (auto simp: response_days_def map_filter_def image_iff intro!: bexI [of _ k])
      with that(2) show False by simp
    qed
    then have "map_of (rows df1) d = None" by (simp add: map_of_eq_None_iff)
    with that(1) show ?thesis
      by (simp add: df fr map_of_graph cols1 parameters_def eval_nat_numeral)
  qed
  from s e cols idx miss show ?thesis by blast
qed

lemma fetch_within_bound:
  assumes "strptime_Ymd start_date = Inr s" and "strptime_Ymd end_date = Inr e"
    and "e - s \<le> 10950"
  shows "fst (get_daily_nasa_power_data net to_dt lat lon start_date end_date w)
              \<noteq> Inl (ValueError ''maximum period is 30 years'')"
    and "requests (snd (get_daily_nasa_power_data net to_dt lat lon start_date end_date w))
              = requests w @ [nasa_request lat lon start_date end_date]"
proof -
  from assms process_daily_data_error [of to_dt _ start_date end_date]
  show "fst (get_daily_nasa_power_data net to_dt lat lon start_date end_date w)
              \<noteq> Inl (ValueError ''maximum period is 30 years'')"
    by (auto simp: get_daily_nasa_power_data_def Let_def split: http_reply.splits sum.splits)
  from assms
  show "requests (snd (get_daily_nasa_power_data net to_dt lat lon start_date end_date w))
              = requests w @ [nasa_request lat lon start_date end_date]"
    by (auto simp: get_daily_nasa_power_data_def Let_def split: http_reply.splits sum.splits)
qed

lemma sample_run:
  "get_daily_nasa_power_data (\<lambda>r. Reply 200 sample_body) strict_parser 0 0
       ''20200101'' ''20200103'' world0
   = (Inr (Some \<lparr>columns = parameters,
                 rows = [(737425, replicate 7 None), (737426, replicate 7 (Some 1)),
                         (737427, replicate 7 None)]\<rparr>),
      world0\<lparr>requests := [nasa_request 0 0 ''20200101'' ''20200103'']\<rparr>)"
  by (simp add: get_daily_nasa_power_data_def Let_def strptime_20200101 strptime_20200103
        failure_status_def process_daily_data_def sample_body_def parameters_def
        pd_DataFrame_def set_index_to_datetime_def index_def strict_parser_def
        strptime_20200102 date_range_def reindex_def world0_def eval_nat_numeral upto.simps)

lemma reversed_run:
  "get_daily_nasa_power_data (\<lambda>r. Reply 200 sample_body) strict_parser 0 0
       ''20200103'' ''20200101'' world0
   = (Inr (Some \<lparr>columns = parameters, rows = []\<rparr>),
      world0\<lparr>requests := [nasa_request 0 0 ''20200103'' ''20200101'']\<rparr>)"
  by (simp add: get_daily_nasa_power_data_def Let_def strptime_20200101 strptime_20200103
        failure_status_def process_daily_data_def sample_body_def parameters_def
        pd_DataFrame_def set_index_to_datetime_def index_def strict_parser_def
        strptime_20200102 date_range_def reindex_def world0_def)

text \<open>
  Claim C3. For every pair of dates that \<^verbatim>\<open>strptime\<close> parses, if the end is more than
  10950 days (365 times 30) after the start, the fetch raises the \<open>ValueError\<close> of the
  interval check and leaves the world as it was: no request is issued. If the difference is at
  most 10950 days, the fetch does not raise that error and issues the request.
\<close>

theorem interval_length_check:
  assumes "strptime_Ymd start_date = Inr s" and "strptime_Ymd end_date = Inr e"
  shows "(10950 < e - s \<longrightarrow>
            get_daily_nasa_power_data net to_dt lat lon start_date end_date w
              = (Inl (ValueError ''maximum period is 30 years''), w))
       \<and> (e - s \<le> 10950 \<longrightarrow>
            fst (get_daily_nasa_power_data net to_dt lat lon start_date end_date w)
              \<noteq> Inl (ValueError ''maximum period is 30 years'')
          \<and> requests (snd (get_daily_nasa_power_data net to_dt lat lon start_date end_date w))
              = requests w @ [nasa_request lat lon start_date end_date])"
proof (intro conjI impI)
  assume "10950 < e - s"
  with assms show "get_daily_nasa_power_data net to_dt lat lon start_date end_date w
              = (Inl (ValueError ''maximum period is 30 years''), w)"
    by (simp add: get_daily_nasa_power_data_def)
next
  assume le: "e - s \<le> 10950"
  with assms process_daily_data_error [of to_dt _ start_date end_date]
  show "fst (get_daily_nasa_power_data net to_dt lat lon start_date end_date w)
              \<noteq> Inl (ValueError ''maximum period is 30 years'')"
    by (auto simp: get_daily_nasa_power_data_def Let_def split: http_reply.splits sum.splits)
  from le assms
  show "requests (snd (get_daily_nasa_power_data net to_dt lat lon start_date end_date w))
              = requests w @ [nasa_request lat lon start_date end_date]"
    by (auto simp: get_daily_nasa_power_data_def Let_def split: http_reply.splits sum.splits)
qed

theorem interval_length_check_witness:
  "strptime_Ymd ''19900101'' = Inr 726468 \<and> strptime_Ymd ''20241231'' = Inr 739251
   \<and> (10950::int) < 739251 - 726468
   \<and> get_daily_nasa_power_data (\<lambda>r. Raises ''unreachable'') (\<lambda>k. None) 0 0
        ''19900101'' ''20241231'' world0
       = (Inl (ValueError ''maximum period is 30 years''), world0)
   \<and> strptime_Ymd ''20200101'' = Inr 737425 \<and> strptime_Ymd ''20200103'' = Inr 737427
   \<and> (737427::int) - 737425 \<le> 10950
   \<and> requests (snd (get_daily_nasa_power_data (\<lambda>r. Raises ''unreachable'') (\<lambda>k. None) 0 0
        ''20200101'' ''20200103'' world0))
       = [nasa_request 0 0 ''20200101'' ''20200103'']"
  using interval_length_check [OF strptime_19900101 strptime_20241231,
          where net = "\<lambda>r. Raises ''unreachable''" and to_dt = "\<lambda>k. None" and lat = 0
            and lon = 0 and w = world0]
        interval_length_check [OF strptime_20200101 strptime_20200103,
          where net = "\<lambda>r. Raises ''unreachable''" and to_dt = "\<lambda>k. None" and lat = 0
            and lon = 0 and w = world0]
  by (simp add: strptime_19900101 strptime_20241231 strptime_20200101 strptime_20200103 world0_def)

text \<open>
  Claim C7. For every fetch whose dates pass the interval check, if the request raises a
  \<^verbatim>\<open>RequestException\<close>, or the response carries a status that \<^verbatim>\<open>raise_for_status\<close>
  rejects, the fetch returns \<^verbatim>\<open>None\<close> instead of raising, prints one diagnostic, and has
  issued exactly one request: there is no retry.
\<close>

theorem request_failure_returns_none:
  assumes "strptime_Ymd start_date = Inr s" and "strptime_Ymd end_date = Inr e"
    and "e - s \<le> 10950"
  shows "(net (nasa_request lat lon start_date end_date) = Raises msg \<longrightarrow>
            get_daily_nasa_power_data net to_dt lat lon start_date end_date w
              = (Inr None,
                 w\<lparr>requests := requests w @ [nasa_request lat lon start_date end_date],
                   printed := printed w @ [RequestError (TransportFailure msg)]\<rparr>))
       \<and> (net (nasa_request lat lon start_date end_date) = Reply status body
            \<and> failure_status status \<longrightarrow>
            get_daily_nasa_power_data net to_dt lat lon start_date end_date w
              = (Inr None,
                 w\<lparr>requests := requests w @ [nasa_request lat lon start_date end_date],
                   printed := printed w @ [RequestError (HTTPError status)]\<rparr>))"
  using assms by (simp add: get_daily_nasa_power_data_def Let_def)

theorem request_failure_returns_none_witness:
  "strptime_Ymd ''20200101'' = Inr 737425 \<and> strptime_Ymd ''20200103'' = Inr 737427
   \<and> (737427::int) - 737425 \<le> 10950
   \<and> get_daily_nasa_power_data (\<lambda>r. Raises ''timed out'') (\<lambda>k. None) 0 0
        ''20200101'' ''20200103'' world0
       = (Inr None, world0\<lparr>requests := [nasa_request 0 0 ''20200101'' ''20200103''],
                          printed := [RequestError (TransportFailure ''timed out'')]\<rparr>)
   \<and> failure_status 503
   \<and> get_daily_nasa_power_data (\<lambda>r. Reply 503 []) (\<lambda>k. None) 0 0
        ''20200101'' ''20200103'' world0
       = (Inr None, world0\<lparr>requests := [nasa_request 0 0 ''20200101'' ''20200103''],
                          printed := [RequestError (HTTPError 503)]\<rparr>)"
proof -
  have le: "(737427::int) - 737425 \<le> 10950" by simp
  have fs: "failure_status 503" by (simp add: failure_status_def)
  from request_failure_returns_none [OF strptime_20200101 strptime_20200103 le,
          where net = "\<lambda>r. Raises ''timed out''" and lat = 0 and lon = 0
            and msg = "''timed out''" and to_dt = "\<lambda>k. None" and w = world0]
       request_failure_returns_none [OF strptime_20200101 strptime_20200103 le,
          where net = "\<lambda>r. Reply 503 []" and lat = 0 and lon = 0 and status = 503
            and body = "[]" and to_dt = "\<lambda>k. None" and w = world0]
       fs
  show ?thesis
    by (simp add: strptime_20200101 strptime_20200103 world0_def)
qed

text \<open>
  Claim C1. Whenever the fetch succeeds, the index of the returned frame is exactly the list of
  all days from the start to the end of the requested interval, as the table library reads the
  two bounds: in ascending order, without duplicates and without gaps, whatever labels the
  service sent. Every day of the interval that the response does not mention is present with
  all seven fields missing.
\<close>

theorem fetched_series_covers_requested_range:
  assumes "get_daily_nasa_power_data net to_dt lat lon start_date end_date w = (Inr (Some df), w')"
    and "net (nasa_request lat lon start_date end_date) = Reply status body"
  shows "\<exists>s e. to_dt start_date = Some s \<and> to_dt end_date = Some e
           \<and> index df = [s..e] \<and> set (index df) = {s..e}
           \<and> sorted_wrt (<) (index df) \<and> distinct (index df)
           \<and> columns df = parameters
           \<and> (\<forall>d \<in> {s..e}. d \<notin> response_days to_dt body \<longrightarrow>
                 map_of (rows df) d = Some (replicate 7 None))"
proof -
  from assms have "process_daily_data to_dt body start_date end_date = Inr df"
    by (auto simp: get_daily_nasa_power_data_def Let_def split: sum.splits if_splits)
  from process_daily_data_success [OF this]
  obtain s e where *: "to_dt start_date = Some s" "to_dt end_date = Some e"
    "columns df = parameters" "index df = [s..e]"
    "\<forall>d \<in> {s..e}. d \<notin> response_days to_dt body \<longrightarrow> map_of (rows df) d = Some (replicate 7 None)"
    by blast
  have "sorted_wrt (<) [s..e]" by (rule sorted_wrt_upto)
  moreover have "distinct [s..e]" by simp
  ultimately show ?thesis using * by auto
qed

theorem fetched_series_covers_requested_range_witness:
  "get_daily_nasa_power_data (\<lambda>r. Reply 200 sample_body) strict_parser 0 0
       ''20200101'' ''20200103'' world0
   = (Inr (Some \<lparr>columns = parameters,
                 rows = [(737425, replicate 7 None), (737426, replicate 7 (Some 1)),
                         (737427, replicate 7 None)]\<rparr>),
      world0\<lparr>requests := [nasa_request 0 0 ''20200101'' ''20200103'']\<rparr>)
   \<and> strict_parser ''20200101'' = Some 737425 \<and> strict_parser ''20200103'' = Some 737427
   \<and> 737425 \<in> {737425..737427::int} \<and> 737425 \<notin> response_days strict_parser sample_body
   \<and> index \<lparr>columns = parameters,
            rows = [(737425, replicate 7 None), (737426, replicate 7 (Some 1)),
                    (737427, replicate 7 None)]\<rparr> = [737425..737427]"
proof -
  have p: "strict_parser ''20200101'' = Some 737425" "strict_parser ''20200103'' = Some 737427"
    by (simp_all add: strict_parser_def strptime_20200101 strptime_20200103)
  have a: "737425 \<notin> response_days strict_parser sample_body"
    by (simp add: response_days_def response_labels_def sample_body_def parameters_def
          map_filter_def strict_parser_def strptime_20200102)
  from fetched_series_covers_requested_range [OF sample_run refl] p
  have "index \<lparr>columns = parameters,
            rows = [(737425, replicate 7 None), (737426, replicate 7 (Some 1)),
                    (737427, replicate 7 None)]\<rparr> = [737425..737427]"
    by auto
  with sample_run p a show ?thesis by simp
qed

text \<open>
  Claim C10. The fetch never compares the start with the end. For every pair of parseable dates
  with the start later than the end, the interval check raises nothing and the request is
  issued; when the fetch then succeeds, the frame it returns has the seven columns and no row,
  the requested range being empty.
\<close>

theorem reversed_interval_is_not_rejected:
  assumes "strptime_Ymd start_date = Inr s" and "strptime_Ymd end_date = Inr e"
    and "e < s"
  shows "fst (get_daily_nasa_power_data net to_dt lat lon start_date end_date w)
              \<noteq> Inl (ValueError ''maximum period is 30 years'')
       \<and> requests (snd (get_daily_nasa_power_data net to_dt lat lon start_date end_date w))
              = requests w @ [nasa_request lat lon start_date end_date]
       \<and> (\<forall>df. to_dt start_date = Some s \<and> to_dt end_date = Some e
              \<and> fst (get_daily_nasa_power_data net to_dt lat lon start_date end_date w)
                   = Inr (Some df)
              \<longrightarrow> rows df = [] \<and> columns df = parameters)"
proof (intro conjI allI impI)
  have le: "e - s \<le> 10950" using assms(3) by simp
  from fetch_within_bound [OF assms(1,2) le]
  show "fst (get_daily_nasa_power_data net to_dt lat lon start_date end_date w)
              \<noteq> Inl (ValueError ''maximum period is 30 years'')"
    and "requests (snd (get_daily_nasa_power_data net to_dt lat lon start_date end_date w))
              = requests w @ [nasa_request lat lon start_date end_date]"
    by simp_all
  fix df
  assume a: "to_dt start_date = Some s \<and> to_dt end_date = Some e
              \<and> fst (get_daily_nasa_power_data net to_dt lat lon start_date end_date w)
                   = Inr (Some df)"
  then obtain body where "process_daily_data to_dt body start_date end_date = Inr df"
    using assms(1,2) le
    by (auto simp: get_daily_nasa_power_data_def Let_def
          split: sum.splits if_splits http_reply.splits)
  from process_daily_data_success [OF this] a
  have c: "columns df = parameters" and i: "index df = [s..e]" by auto
  from i assms(3) have "rows df = []" by (simp add: index_def)
  with c show "rows df = []" and "columns df = parameters" by simp_all
qed

theorem reversed_interval_is_not_rejected_witness:
  "strptime_Ymd ''20200103'' = Inr 737427 \<and> strptime_Ymd ''20200101'' = Inr 737425
   \<and> (737425::int) < 737427
   \<and> strict_parser ''20200103'' = Some 737427 \<and> strict_parser ''20200101'' = Some 737425
   \<and> get_daily_nasa_power_data (\<lambda>r. Reply 200 sample_body) strict_parser 0 0
       ''20200103'' ''20200101'' world0
     = (Inr (Some \<lparr>columns = parameters, rows = []\<rparr>),
        world0\<lparr>requests := [nasa_request 0 0 ''20200103'' ''20200101'']\<rparr>)"
proof -
  have lt: "(737425::int) < 737427" by simp
  have p: "strict_parser ''20200103'' = Some 737427" "strict_parser ''20200101'' = Some 737425"
    by (simp_all add: strict_parser_def strptime_20200101 strptime_20200103)
  from reversed_interval_is_not_rejected [OF strptime_20200103 strptime_20200101 lt,
         where net = "\<lambda>r. Reply 200 sample_body" and to_dt = strict_parser and lat = 0
           and lon = 0 and w = world0]
  have "rows \<lparr>columns = parameters, rows = ([] :: (int \<times> cell list) list)\<rparr> = []"
    using p reversed_run by simp
  with reversed_run p lt strptime_20200103 strptime_20200101 show ?thesis by simp
qed

section \<open>Properties of the writer and of the run\<close>




lemma replicate_num: "replicate (numeral k) x = x # replicate (pred_numeral k) x"
  by (simp add: numeral_eq_Suc)

lemma rhe_int: "round_half_even (of_int n) = n"
  by (simp add: round_half_even_def Let_def)

lemma format_f_nan: "format_f 5 p None = ''  nan''"
  by (simp add: format_f_def rjust_def replicate_num)

lemma format_f_one_1: "format_f 5 (Suc 0) (Some 1) = ''  1.0''"
  using rhe_int [of 10]
  by (simp add: format_f_def rjust_def Let_def str_nat_1 zfill_def digit_char_def replicate_num)

lemma format_f_one_0: "format_f 5 0 (Some 1) = ''    1''"
  using rhe_int [of 1]
  by (simp add: format_f_def rjust_def Let_def str_nat_1 zfill_def digit_char_def replicate_num)

lemma dssat_date_737425: "dssat_date 737425 = ''20001''"
  by (simp add: dssat_date_digits year_of_def tm_yday_def ord2ymd_def Let_def
        DAYS_IN_MONTH_def days_before_month_def DAYS_BEFORE_MONTH_def is_leap_def digit_char_def)

lemma dssat_date_737426: "dssat_date 737426 = ''20002''"
  by (simp add: dssat_date_digits year_of_def tm_yday_def ord2ymd_def Let_def
        DAYS_IN_MONTH_def days_before_month_def DAYS_BEFORE_MONTH_def is_leap_def digit_char_def)

lemma dssat_date_737427: "dssat_date 737427 = ''20003''"
  by (simp add: dssat_date_digits year_of_def tm_yday_def ord2ymd_def Let_def
        DAYS_IN_MONTH_def days_before_month_def DAYS_BEFORE_MONTH_def is_leap_def digit_char_def)

lemma sample_lines:
  "wth_data_lines (rename required_columns sample_frame)
     = [''20001   nan   nan   nan   nan   nan   nan'',
        ''20002   1.0   1.0   1.0   1.0     1   1.0'',
        ''20003   nan   nan   nan   nan   nan   nan'']"
  by (simp add: wth_data_lines_def rename_def required_columns_def sample_frame_def
        parameters_def data_line_def row_get_def Let_def replicate_num
        dssat_date_737425 dssat_date_737426 dssat_date_737427 format_f_nan format_f_one_1
        format_f_one_0)



lemma strptime_19940101: "strptime_Ymd ''19940101'' = Inr 727929"
  by (simp add: strptime_Ymd_def regex_Y_def regex_m_def regex_d_def is_digit_def digit_val_def
        valid_date_def days_in_month_def DAYS_IN_MONTH_def ymd2ord_def days_before_year_def
        days_before_month_def DAYS_BEFORE_MONTH_def is_leap_def)

lemma strptime_20141231: "strptime_Ymd ''20141231'' = Inr 735598"
  by (simp add: strptime_Ymd_def regex_Y_def regex_m_def regex_d_def is_digit_def digit_val_def
        valid_date_def days_in_month_def DAYS_IN_MONTH_def ymd2ord_def days_before_year_def
        days_before_month_def DAYS_BEFORE_MONTH_def is_leap_def)

lemma strptime_20150101: "strptime_Ymd ''20150101'' = Inr 735599"
  by (simp add: strptime_Ymd_def regex_Y_def regex_m_def regex_d_def is_digit_def digit_val_def
        valid_date_def days_in_month_def DAYS_IN_MONTH_def ymd2ord_def days_before_year_def
        days_before_month_def DAYS_BEFORE_MONTH_def is_leap_def)



text \<open>
  Claim C2, at the failing input. The frame fetched for 2020-01-01 to 2020-01-03 when the service
  sends 2020-01-02 only has two days with all fields missing; the writer renders each of their
  fields as \<open>nan\<close> in a width of 5, not as -99.
\<close>

theorem missing_values_rendered_as_nan:
  "get_daily_nasa_power_data (\<lambda>r. Reply 200 sample_body) strict_parser 0 0
       ''20200101'' ''20200103'' world0
     = (Inr (Some sample_frame), world0\<lparr>requests := [nasa_request 0 0 ''20200101'' ''20200103'']\<rparr>)
   \<and> wth_data_lines (rename required_columns sample_frame)
     = [''20001   nan   nan   nan   nan   nan   nan'',
        ''20002   1.0   1.0   1.0   1.0     1   1.0'',
        ''20003   nan   nan   nan   nan   nan   nan'']"
  using sample_run sample_lines by (simp add: sample_frame_def)

text \<open>
  Claim C6, at the failing input. When both requests of a run fail in transport, the run prints
  the two diagnostics and writes no file, but it does not end normally: reading the local
  variable that was never bound raises \<open>UnboundLocalError\<close>.
\<close>

theorem main_without_data_raises:
  "main (\<lambda>r. Raises msg) to_dt w
     = (Inl (UnboundLocalError ''daily_data''),
        w\<lparr>requests := requests w
             @ [nasa_request (- (1354 / 100)) (- (5882 / 100)) ''19940101'' ''20141231'',
                nasa_request (- (1354 / 100)) (- (5882 / 100)) ''20150101'' ''20241231''],
          printed := printed w
             @ [RequestError (TransportFailure msg), RequestError (TransportFailure msg)]\<rparr>)"
  by (simp add: main_def get_daily_nasa_power_data_def Let_def strptime_19940101
        strptime_20141231 strptime_20150101 strptime_20241231)

section \<open>Header statistics\<close>














section \<open>Concatenated series\<close>
















end
